theory Spec2Isabelle
  imports Complex_Main "HOL-Library.Char_ord" "HOL-Library.List_Lexorder" "HOL-Library.AList"
begin

section \<open>Values of the program\<close>

text \<open>
  The backend (\<^verbatim>\<open>src/backend/main.py\<close>) keeps a regression model, its label encoders
  and its metrics in module-level globals, and a dataset and two pickles on disk. This
  theory embeds the model lifecycle: \<^verbatim>\<open>load_and_preprocess_data\<close>, \<^verbatim>\<open>train_model\<close>,
  \<^verbatim>\<open>load_model\<close>, \<^verbatim>\<open>predict_product_price_internal\<close>, \<^verbatim>\<open>get_products\<close>,
  \<^verbatim>\<open>predict_price\<close> and \<^verbatim>\<open>upload_data\<close>.

  Conventions of the embedding.
  \<^item> A Python float is an exact real number or one of the three special values; the
    rounding error of float arithmetic is not modelled.
  \<^item> A cell of a table read by \<^verbatim>\<open>pd.read_csv\<close> is a number (a field that parses as
    one), some other text, or empty (pandas' NaN). A column that holds a text cell is
    what pandas calls an object column.
  \<^item> The globals and the three files form one explicit state. Every function that
    assigns a global or writes a file returns the state it leaves behind, also when it
    raises: an exception is the left summand of the result.
  \<^item> scikit-learn's estimator, its split and its scores, and \<^verbatim>\<open>np.sqrt\<close>, are parameters
    of the functions that call them (the record \<open>sklearn\<close>); every theorem holds for each
    choice of them.
  \<^item> Writing a table with \<^verbatim>\<open>to_csv\<close> and reading it back, and \<^verbatim>\<open>joblib.dump\<close> followed
    by \<^verbatim>\<open>joblib.load\<close>, return the value written; writes to disk do not fail. That
    pandas infers the type of each column anew at every read is not modelled.
\<close>

datatype pyfloat = Fin real | PosInf | NegInf | NaN

datatype cell = Num real | Str string | Null

text \<open>Python exceptions the modelled code can meet.\<close>

datatype exn =
    FileNotFoundError string
  | KeyError string
  | UnseenLabels cell
  | ValueError string
  | TypeError string
  | IndexError
  | NotFittedError
  | ModelNotLoaded
  | PredictionError exn

text \<open>
  \<open>UnseenLabels v\<close> is the \<^verbatim>\<open>ValueError\<close> "y contains previously unseen labels" of
  \<^verbatim>\<open>LabelEncoder.transform\<close>; \<open>ModelNotLoaded\<close> is \<^verbatim>\<open>Exception("Model not loaded")\<close>
  and \<open>PredictionError e\<close> is \<^verbatim>\<open>Exception(f"Prediction error: {str(e)}")\<close>.
\<close>

definition then_do :: "'e + 'a \<Rightarrow> ('a \<Rightarrow> 'e + 'b) \<Rightarrow> 'e + 'b" where
  "then_do r f = (case r of Inl e \<Rightarrow> Inl e | Inr v \<Rightarrow> f v)"

subsection \<open>Float operations\<close>

fun float_gt :: "pyfloat \<Rightarrow> pyfloat \<Rightarrow> bool" where
  "float_gt (Fin a) (Fin b) = (a > b)"
| "float_gt NaN _ = False"
| "float_gt _ NaN = False"
| "float_gt PosInf PosInf = False"
| "float_gt PosInf _ = True"
| "float_gt _ PosInf = False"
| "float_gt NegInf _ = False"
| "float_gt _ NegInf = True"

definition float_lt :: "pyfloat \<Rightarrow> pyfloat \<Rightarrow> bool" where
  "float_lt a b = float_gt b a"

text \<open>Python's builtin \<^verbatim>\<open>max(a, b)\<close> keeps \<open>a\<close> unless \<open>b > a\<close>; \<^verbatim>\<open>min(a, b)\<close>
  keeps \<open>a\<close> unless \<open>b < a\<close>.\<close>

definition py_max :: "pyfloat \<Rightarrow> pyfloat \<Rightarrow> pyfloat" where
  "py_max a b = (if float_gt b a then b else a)"

definition py_min :: "pyfloat \<Rightarrow> pyfloat \<Rightarrow> pyfloat" where
  "py_min a b = (if float_lt b a then b else a)"

text \<open>Division of a numpy float by a Python float: a zero divisor gives an infinity or
  NaN (with a warning), not an exception.\<close>

definition np_true_divide :: "real \<Rightarrow> real \<Rightarrow> pyfloat" where
  "np_true_divide a b =
     (if b \<noteq> 0 then Fin (a / b)
      else if a > 0 then PosInf else if a < 0 then NegInf else NaN)"

definition float_times :: "pyfloat \<Rightarrow> real \<Rightarrow> pyfloat" where
  "float_times x c =
     (case x of
        Fin r \<Rightarrow> Fin (r * c)
      | NaN \<Rightarrow> NaN
      | PosInf \<Rightarrow> (if c > 0 then PosInf else if c < 0 then NegInf else NaN)
      | NegInf \<Rightarrow> (if c > 0 then NegInf else if c < 0 then PosInf else NaN))"

definition round_half_even :: "real \<Rightarrow> int" where
  "round_half_even x =
     (let f = \<lfloor>x\<rfloor>; d = x - of_int f
      in if d < 1 / 2 then f else if d > 1 / 2 then f + 1 else if even f then f else f + 1)"

text \<open>\<^verbatim>\<open>round(x, ndigits)\<close> on a float: to the nearest multiple of \<open>10 ^ -ndigits\<close>, ties
  to even; the special values are returned as they are.\<close>

definition py_round :: "pyfloat \<Rightarrow> nat \<Rightarrow> pyfloat" where
  "py_round x ndigits =
     (case x of
        Fin r \<Rightarrow> Fin (of_int (round_half_even (r * 10 ^ ndigits)) / 10 ^ ndigits)
      | _ \<Rightarrow> x)"

subsection \<open>Label encoders\<close>

text \<open>
  \<^verbatim>\<open>LabelEncoder\<close>: \<^verbatim>\<open>fit\<close> stores the distinct labels of the column in sorted order
  (\<open>classes_\<close>), \<^verbatim>\<open>transform\<close> maps a label to its position there and raises for a label
  that is not among them. An encoder is its list of classes. Text labels are sorted by
  code point and numbers by value; an empty cell comes last. In a column that mixes
  numbers and other text the numbers are placed after the text.
\<close>

type_synonym LabelEncoder = "cell list"

definition LabelEncoder_fit :: "cell list \<Rightarrow> LabelEncoder" where
  "LabelEncoder_fit col =
     map Str (sort (remdups [s. Str s \<leftarrow> col]))
     @ map Num (sort (remdups [r. Num r \<leftarrow> col]))
     @ (if Null \<in> set col then [Null] else [])"

fun index_of :: "'a \<Rightarrow> 'a list \<Rightarrow> nat option" where
  "index_of v [] = None"
| "index_of v (x # xs) =
     (if v = x then Some 0 else (case index_of v xs of None \<Rightarrow> None | Some i \<Rightarrow> Some (Suc i)))"

definition LabelEncoder_transform :: "LabelEncoder \<Rightarrow> cell \<Rightarrow> exn + nat" where
  "LabelEncoder_transform le v =
     (case index_of v le of None \<Rightarrow> Inl (UnseenLabels v) | Some i \<Rightarrow> Inr i)"

subsection \<open>The estimator and the library\<close>

text \<open>\<^verbatim>\<open>RandomForestRegressor(...)\<close> builds an estimator that is not fitted; \<^verbatim>\<open>fit\<close> fits
  it in place. \<open>'m\<close> is the fitted forest.\<close>

datatype 'm estimator = Unfitted | Fitted 'm

record 'm sklearn =
  sk_train_test_split ::
    "cell list list \<Rightarrow> cell list \<Rightarrow> exn + (cell list list \<times> cell list list \<times> cell list \<times> cell list)"
  sk_fit :: "cell list list \<Rightarrow> cell list \<Rightarrow> exn + 'm"
  sk_predict :: "'m \<Rightarrow> cell list list \<Rightarrow> exn + real list"
  sk_feature_importances :: "'m \<Rightarrow> real list"
  sk_mean_squared_error :: "cell list \<Rightarrow> real list \<Rightarrow> exn + pyfloat"
  sk_r2_score :: "cell list \<Rightarrow> real list \<Rightarrow> exn + pyfloat"
  np_sqrt :: "pyfloat \<Rightarrow> pyfloat"

text \<open>
  \<open>sk_train_test_split X y\<close> is \<^verbatim>\<open>train_test_split(X, y, test_size=0.2, random_state=42)\<close>,
  giving \<open>(X_train, X_test, y_train, y_test)\<close>; \<open>sk_fit\<close> is the fit of
  \<^verbatim>\<open>RandomForestRegressor(n_estimators=100, max_depth=10, random_state=42)\<close>;
  \<open>sk_predict m X\<close> is \<^verbatim>\<open>predict\<close> of the fitted forest on the rows \<open>X\<close>.
\<close>

text \<open>\<^verbatim>\<open>model.predict(X)\<close> on the estimator held by the global.\<close>

definition estimator_predict :: "'m sklearn \<Rightarrow> 'm estimator \<Rightarrow> cell list list \<Rightarrow> exn + real list" where
  "estimator_predict lib est X =
     (case est of Unfitted \<Rightarrow> Inl NotFittedError | Fitted m \<Rightarrow> sk_predict lib m X)"

text \<open>\<^verbatim>\<open>model.predict(feature_vector)[0]\<close> for the one-row matrix \<^verbatim>\<open>[[...]]\<close>.\<close>

definition predict_one :: "'m sklearn \<Rightarrow> 'm estimator \<Rightarrow> cell list \<Rightarrow> exn + real" where
  "predict_one lib est feature_vector =
     then_do (estimator_predict lib est [feature_vector]) (\<lambda>ps.
       case ps of [] \<Rightarrow> Inl IndexError | p # _ \<Rightarrow> Inr p)"

section \<open>Tables\<close>

record dataframe =
  columns :: "string list"
  rows :: "cell list list"

text \<open>A row shorter than the header is filled with empty cells, as \<^verbatim>\<open>read_csv\<close> does.\<close>

definition cell_at :: "cell list \<Rightarrow> nat \<Rightarrow> cell" where
  "cell_at r i = (if i < length r then r ! i else Null)"

definition column :: "dataframe \<Rightarrow> string \<Rightarrow> exn + cell list" where
  "column df c =
     (case index_of c (columns df) of
        None \<Rightarrow> Inl (KeyError c)
      | Some i \<Rightarrow> Inr (map (\<lambda>r. cell_at r i) (rows df)))"

text \<open>\<^verbatim>\<open>row[c]\<close> for a row of \<^verbatim>\<open>df.iterrows()\<close>.\<close>

definition row_get :: "string list \<Rightarrow> cell list \<Rightarrow> string \<Rightarrow> exn + cell" where
  "row_get cols r c =
     (case index_of c cols of None \<Rightarrow> Inl (KeyError c) | Some i \<Rightarrow> Inr (cell_at r i))"

fun column_indices :: "string list \<Rightarrow> string list \<Rightarrow> exn + nat list" where
  "column_indices cols [] = Inr []"
| "column_indices cols (c # cs) =
     (case index_of c cols of
        None \<Rightarrow> Inl (KeyError c)
      | Some i \<Rightarrow> then_do (column_indices cols cs) (\<lambda>is. Inr (i # is)))"

text \<open>\<^verbatim>\<open>df[cs]\<close> with a list of column names: those columns, in the order of \<open>cs\<close>.\<close>

definition select_columns :: "dataframe \<Rightarrow> string list \<Rightarrow> exn + dataframe" where
  "select_columns df cs =
     then_do (column_indices (columns df) cs) (\<lambda>is.
       Inr \<lparr>columns = cs, rows = map (\<lambda>r. map (cell_at r) is) (rows df)\<rparr>)"

text \<open>\<^verbatim>\<open>df[c] = values\<close>: replaces the column when it exists, appends it otherwise.\<close>

definition set_column :: "dataframe \<Rightarrow> string \<Rightarrow> cell list \<Rightarrow> dataframe" where
  "set_column df c vals =
     (case index_of c (columns df) of
        Some i \<Rightarrow>
          df\<lparr>rows := map (\<lambda>(r, v). (map (cell_at r) [0..<length (columns df)])[i := v])
                         (zip (rows df) vals)\<rparr>
      | None \<Rightarrow>
          \<lparr>columns = columns df @ [c],
           rows = map (\<lambda>(r, v). map (cell_at r) [0..<length (columns df)] @ [v])
                      (zip (rows df) vals)\<rparr>)"

section \<open>The state: globals and files\<close>

record ModelMetrics =
  mse :: pyfloat
  rmse :: pyfloat
  r2_score :: pyfloat
  model_type :: string
  training_samples :: nat
  feature_importance :: "(string \<times> real) list"

text \<open>
  The globals \<^verbatim>\<open>model\<close> (\<open>None\<close> is Python's \<^verbatim>\<open>None\<close>), \<^verbatim>\<open>label_encoders\<close> (a dict, here
  an association list in insertion order), \<^verbatim>\<open>feature_columns\<close> and \<^verbatim>\<open>model_metrics\<close>
  (\<open>None\<close> is the empty dict \<^verbatim>\<open>{}\<close>), and the files \<^verbatim>\<open>dataset.csv\<close>,
  \<^verbatim>\<open>pricing_model.pkl\<close> and \<^verbatim>\<open>label_encoders.pkl\<close> (\<open>None\<close>: the file does not exist).
\<close>

record 'm state =
  model :: "'m estimator option"
  label_encoders :: "(string \<times> LabelEncoder) list"
  feature_columns :: "string list"
  model_metrics :: "ModelMetrics option"
  dataset_csv :: "dataframe option"
  pricing_model_pkl :: "'m estimator option"
  label_encoders_pkl :: "(string \<times> LabelEncoder) list option"

text \<open>The globals as the module initialises them (lines 53 to 56), over given files.\<close>

definition fresh_process :: "'m state \<Rightarrow> 'm state" where
  "fresh_process st =
     st\<lparr>model := None, label_encoders := [], feature_columns := [], model_metrics := None\<rparr>"

text \<open>\<^verbatim>\<open>label_encoders[c].transform([v])[0]\<close>.\<close>

definition encode :: "(string \<times> LabelEncoder) list \<Rightarrow> string \<Rightarrow> cell \<Rightarrow> exn + nat" where
  "encode les c v =
     (case map_of les c of
        None \<Rightarrow> Inl (KeyError c)
      | Some le \<Rightarrow> LabelEncoder_transform le v)"

text \<open>The vocabulary of the active registry: \<open>v\<close> is a class of the encoder stored for
  column \<open>c\<close>. The registry is complete when it has an encoder for each of the three
  categorical columns, as it has after \<^verbatim>\<open>load_and_preprocess_data\<close> returns.\<close>

definition in_vocabulary :: "(string \<times> LabelEncoder) list \<Rightarrow> string \<Rightarrow> string \<Rightarrow> bool" where
  "in_vocabulary les c v = (case map_of les c of None \<Rightarrow> False | Some le \<Rightarrow> Str v \<in> set le)"


text \<open>\<^verbatim>\<open>min(0.95, max(0.6, model_metrics.get('r2_score', 0.8)))\<close>.\<close>

definition confidence_of :: "ModelMetrics option \<Rightarrow> pyfloat" where
  "confidence_of mm =
     py_min (Fin 0.95) (py_max (Fin 0.6) (case mm of None \<Rightarrow> Fin 0.8 | Some m \<Rightarrow> r2_score m))"

section \<open>The prediction endpoint\<close>

record ProductInput =
  product_name :: string
  category :: string
  base_price :: real
  inventory_level :: int
  competitor_avg_price :: real
  sales_last_30_days :: int
  rating :: real
  review_count :: int
  season :: string
  brand_tier :: string
  material_cost :: real

record PredictionResponse =
  predicted_price :: pyfloat
  confidence_score :: pyfloat
  price_change_percentage :: pyfloat
  recommendation :: string

text \<open>The entries of \<^verbatim>\<open>validation_errors\<close> in \<^verbatim>\<open>upload_data\<close>: "CSV file is empty",
  "Column 'c' contains negative values", "Column 'rating' should be between 0 and 5",
  "Null values found in columns: ..." and "Data type validation error: ...".\<close>

datatype validation_error =
    EmptyCSV
  | NegativeValues string
  | RatingOutOfRange
  | NullValues "string list"
  | DataTypeValidationError exn

text \<open>The \<^verbatim>\<open>detail\<close> of an \<^verbatim>\<open>HTTPException\<close>; \<open>MissingColumns\<close> carries
  \<^verbatim>\<open>missing_columns\<close>, \<^verbatim>\<open>required_columns\<close> and \<^verbatim>\<open>uploaded_columns\<close>.\<close>

datatype detail =
    ModelNotLoadedDetail
  | PredictionErrorDetail exn
  | TrainingErrorDetail exn
  | ErrorLoadingProducts exn
  | InvalidFileType
  | MissingColumns "string list" "string list" "string list"
  | ValidationFailed "validation_error list"
  | UnexpectedUploadError exn

datatype http_error = HTTPException nat detail

text \<open>\<^verbatim>\<open>((predicted_price - product.base_price) / product.base_price) * 100\<close>.\<close>

definition price_change_of :: "real \<Rightarrow> real \<Rightarrow> pyfloat" where
  "price_change_of predicted base = float_times (np_true_divide (predicted - base) base) 100"

definition recommendation_of :: "pyfloat \<Rightarrow> string" where
  "recommendation_of price_change =
     (if float_gt price_change (Fin 5) then ''Price increase recommended due to market conditions''
      else if float_lt price_change (Fin (- 5)) then ''Price reduction suggested to boost sales''
      else ''Current pricing is optimal'')"

definition feature_vector_of :: "ProductInput \<Rightarrow> nat \<Rightarrow> nat \<Rightarrow> nat \<Rightarrow> cell list" where
  "feature_vector_of product category_encoded season_encoded brand_tier_encoded =
     [Num (base_price product),
      Num (of_int (inventory_level product)),
      Num (competitor_avg_price product),
      Num (of_int (sales_last_30_days product)),
      Num (rating product),
      Num (of_int (review_count product)),
      Num (material_cost product),
      Num (of_nat category_encoded),
      Num (of_nat season_encoded),
      Num (of_nat brand_tier_encoded)]"

text \<open>The body of the \<^verbatim>\<open>try\<close> block of \<^verbatim>\<open>predict_price\<close>; \<open>est\<close> is the global
  \<^verbatim>\<open>model\<close>, known not to be \<^verbatim>\<open>None\<close>.\<close>

definition predict_price_body ::
  "'m sklearn \<Rightarrow> 'm state \<Rightarrow> 'm estimator \<Rightarrow> ProductInput \<Rightarrow> exn + PredictionResponse" where
  "predict_price_body lib st est product =
     then_do (encode (label_encoders st) ''category'' (Str (category product))) (\<lambda>category_encoded.
     then_do (encode (label_encoders st) ''season'' (Str (season product))) (\<lambda>season_encoded.
     then_do (encode (label_encoders st) ''brand_tier'' (Str (brand_tier product))) (\<lambda>brand_tier_encoded.
     then_do (predict_one lib est
                (feature_vector_of product category_encoded season_encoded brand_tier_encoded))
       (\<lambda>predicted.
         let price_change = price_change_of predicted (base_price product);
             recommendation = recommendation_of price_change;
             confidence = confidence_of (model_metrics st)
         in Inr \<lparr>predicted_price = py_round (Fin predicted) 2,
                 confidence_score = py_round confidence 3,
                 price_change_percentage = py_round price_change 2,
                 recommendation = recommendation\<rparr>))))"

definition predict_price :: "'m sklearn \<Rightarrow> 'm state \<Rightarrow> ProductInput \<Rightarrow> http_error + PredictionResponse" where
  "predict_price lib st product =
     (case model st of
        None \<Rightarrow> Inl (HTTPException 500 ModelNotLoadedDetail)
      | Some est \<Rightarrow>
          (case predict_price_body lib st est product of
             Inl e \<Rightarrow> Inl (HTTPException 400 (PredictionErrorDetail e))
           | Inr response \<Rightarrow> Inr response))"

section \<open>Training and loading\<close>

definition categorical_columns :: "string list" where
  "categorical_columns = [''category'', ''season'', ''brand_tier'']"

text \<open>\<^verbatim>\<open>le.fit_transform(values)\<close>: the fitted encoder and the codes of the values. Every
  value is among the classes just fitted, so the \<open>None\<close> case is never taken.\<close>

definition fit_transform :: "cell list \<Rightarrow> LabelEncoder \<times> cell list" where
  "fit_transform vals =
     (let le = LabelEncoder_fit vals
      in (le, map (\<lambda>v. case index_of v le of Some i \<Rightarrow> Num (of_nat i) | None \<Rightarrow> Null) vals))"

text \<open>The loop over \<^verbatim>\<open>categorical_columns\<close> in \<^verbatim>\<open>load_and_preprocess_data\<close>; \<open>les\<close> is
  the global \<^verbatim>\<open>label_encoders\<close>, which keeps the entries assigned before an exception.\<close>

fun encode_columns ::
  "string list \<Rightarrow> dataframe \<Rightarrow> (string \<times> LabelEncoder) list
     \<Rightarrow> (exn + dataframe) \<times> (string \<times> LabelEncoder) list" where
  "encode_columns [] df les = (Inr df, les)"
| "encode_columns (col # cols) df les =
     (case column df col of
        Inl e \<Rightarrow> (Inl e, les)
      | Inr vals \<Rightarrow>
          (let (le, codes) = fit_transform vals
           in encode_columns cols (set_column df (col @ ''_encoded'') codes)
                (AList.update col le les)))"

definition load_and_preprocess_data :: "'m state \<Rightarrow> (exn + dataframe) \<times> 'm state" where
  "load_and_preprocess_data st =
     (case dataset_csv st of
        None \<Rightarrow> (Inl (FileNotFoundError ''dataset.csv''), st)
      | Some df \<Rightarrow>
          (case encode_columns categorical_columns df [] of
             (Inl e, les) \<Rightarrow> (Inl e, st\<lparr>label_encoders := les\<rparr>)
           | (Inr df', les) \<Rightarrow>
               (Inr df',
                st\<lparr>label_encoders := les,
                   feature_columns :=
                     [''base_price'', ''inventory_level'', ''competitor_avg_price'',
                      ''sales_last_30_days'', ''rating'', ''review_count'', ''material_cost'',
                      ''category_encoded'', ''season_encoded'', ''brand_tier_encoded'']\<rparr>)))"

text \<open>The list \<^verbatim>\<open>load_and_preprocess_data\<close> assigns to \<^verbatim>\<open>feature_columns\<close>.\<close>

definition standard_feature_columns :: "string list" where
  "standard_feature_columns =
     [''base_price'', ''inventory_level'', ''competitor_avg_price'',
      ''sales_last_30_days'', ''rating'', ''review_count'', ''material_cost'',
      ''category_encoded'', ''season_encoded'', ''brand_tier_encoded'']"

text \<open>The evaluation in \<^verbatim>\<open>train_model\<close>, from \<^verbatim>\<open>model.predict(X_test)\<close> to the metrics
  dict.\<close>

definition evaluate_model ::
  "'m sklearn \<Rightarrow> 'm \<Rightarrow> string list \<Rightarrow> cell list list \<Rightarrow> cell list \<Rightarrow> nat \<Rightarrow> exn + ModelMetrics" where
  "evaluate_model lib m fcols X y n =
     then_do (estimator_predict lib (Fitted m) X) (\<lambda>y_pred.
     then_do (sk_mean_squared_error lib y y_pred) (\<lambda>mse_v.
     then_do (sk_r2_score lib y y_pred) (\<lambda>r2.
       Inr \<lparr>mse = mse_v,
            rmse = np_sqrt lib mse_v,
            r2_score = r2,
            model_type = ''Random Forest Regressor'',
            training_samples = n,
            feature_importance = zip fcols (sk_feature_importances lib m)\<rparr>)))"

definition train_model :: "'m sklearn \<Rightarrow> 'm state \<Rightarrow> (exn + ModelMetrics) \<times> 'm state" where
  "train_model lib st =
     (case load_and_preprocess_data st of
        (Inl e, st1) \<Rightarrow> (Inl e, st1)
      | (Inr df, st1) \<Rightarrow>
     (case select_columns df (feature_columns st1) of
        Inl e \<Rightarrow> (Inl e, st1)
      | Inr X \<Rightarrow>
     (case column df ''target_price'' of
        Inl e \<Rightarrow> (Inl e, st1)
      | Inr y \<Rightarrow>
     (case sk_train_test_split lib (rows X) y of
        Inl e \<Rightarrow> (Inl e, st1)
      | Inr (X_train, X_test, y_train, y_test) \<Rightarrow>
     (let st2 = st1\<lparr>model := Some Unfitted\<rparr>
      in case sk_fit lib X_train y_train of
        Inl e \<Rightarrow> (Inl e, st2)
      | Inr m \<Rightarrow>
     (let st3 = st2\<lparr>model := Some (Fitted m)\<rparr>
      in case evaluate_model lib m (feature_columns st3) X_test y_test (length X_train) of
        Inl e \<Rightarrow> (Inl e, st3)
      | Inr metrics \<Rightarrow>
          (Inr metrics,
           st3\<lparr>model_metrics := Some metrics,
               pricing_model_pkl := Some (Fitted m),
               label_encoders_pkl := Some (label_encoders st3)\<rparr>)))))))"

text \<open>\<^verbatim>\<open>POST /train\<close>.\<close>

definition retrain_model :: "'m sklearn \<Rightarrow> 'm state \<Rightarrow> (http_error + ModelMetrics) \<times> 'm state" where
  "retrain_model lib st =
     (case train_model lib st of
        (Inl e, st') \<Rightarrow> (Inl (HTTPException 500 (TrainingErrorDetail e)), st')
      | (Inr metrics, st') \<Rightarrow> (Inr metrics, st'))"

definition load_model :: "'m sklearn \<Rightarrow> 'm state \<Rightarrow> (exn + bool) \<times> 'm state" where
  "load_model lib st =
     (case (pricing_model_pkl st, label_encoders_pkl st) of
        (Some est, Some les) \<Rightarrow>
          (let st1 = st\<lparr>model := Some est, label_encoders := les\<rparr>
           in case dataset_csv st1 of
                None \<Rightarrow> (Inr True, st1)
              | Some _ \<Rightarrow>
             (case load_and_preprocess_data st1 of
                (Inl e, st2) \<Rightarrow> (Inl e, st2)
              | (Inr df, st2) \<Rightarrow>
             (case select_columns df (feature_columns st2) of
                Inl e \<Rightarrow> (Inl e, st2)
              | Inr X \<Rightarrow>
             (case column df ''target_price'' of
                Inl e \<Rightarrow> (Inl e, st2)
              | Inr y \<Rightarrow>
             (case est of
                Unfitted \<Rightarrow> (Inl NotFittedError, st2)
              | Fitted m \<Rightarrow>
             (case evaluate_model lib m (feature_columns st2) (rows X) y (length (rows X)) of
                Inl e \<Rightarrow> (Inl e, st2)
              | Inr metrics \<Rightarrow> (Inr True, st2\<lparr>model_metrics := Some metrics\<rparr>)))))))
      | _ \<Rightarrow> (Inr False, st))"

section \<open>The product listing\<close>

text \<open>\<^verbatim>\<open>label_encoders[c].transform([row[c]])[0]\<close>: the dict is indexed before the row.\<close>

definition encode_row ::
  "(string \<times> LabelEncoder) list \<Rightarrow> string list \<Rightarrow> cell list \<Rightarrow> string \<Rightarrow> exn + nat" where
  "encode_row les cols r c =
     (case map_of les c of
        None \<Rightarrow> Inl (KeyError c)
      | Some le \<Rightarrow> then_do (row_get cols r c) (LabelEncoder_transform le))"

fun row_values :: "string list \<Rightarrow> cell list \<Rightarrow> string list \<Rightarrow> exn + cell list" where
  "row_values cols r [] = Inr []"
| "row_values cols r (c # cs) =
     then_do (row_get cols r c) (\<lambda>v.
     then_do (row_values cols r cs) (\<lambda>vs. Inr (v # vs)))"

text \<open>The body of the \<^verbatim>\<open>try\<close> block of \<^verbatim>\<open>predict_product_price_internal\<close>. The dict it
  returns has the two keys \<^verbatim>\<open>predicted_price\<close> and \<^verbatim>\<open>confidence\<close>; it is the pair of
  their values.\<close>

definition predict_product_price_body ::
  "'m sklearn \<Rightarrow> 'm state \<Rightarrow> 'm estimator \<Rightarrow> string list \<Rightarrow> cell list \<Rightarrow> exn + (pyfloat \<times> pyfloat)" where
  "predict_product_price_body lib st est cols r =
     then_do (encode_row (label_encoders st) cols r ''category'') (\<lambda>category_encoded.
     then_do (encode_row (label_encoders st) cols r ''season'') (\<lambda>season_encoded.
     then_do (encode_row (label_encoders st) cols r ''brand_tier'') (\<lambda>brand_tier_encoded.
     then_do (row_values cols r
                [''base_price'', ''inventory_level'', ''competitor_avg_price'',
                 ''sales_last_30_days'', ''rating'', ''review_count'', ''material_cost''])
       (\<lambda>raw.
     then_do (predict_one lib est
                (raw @ [Num (of_nat category_encoded), Num (of_nat season_encoded),
                        Num (of_nat brand_tier_encoded)]))
       (\<lambda>predicted.
         Inr (py_round (Fin predicted) 2, py_round (confidence_of (model_metrics st)) 3))))))"

definition predict_product_price_internal ::
  "'m sklearn \<Rightarrow> 'm state \<Rightarrow> string list \<Rightarrow> cell list \<Rightarrow> exn + (pyfloat \<times> pyfloat)" where
  "predict_product_price_internal lib st cols r =
     (case model st of
        None \<Rightarrow> Inl ModelNotLoaded
      | Some est \<Rightarrow>
          (case predict_product_price_body lib st est cols r of
             Inl e \<Rightarrow> Inl (PredictionError e)
           | Inr prediction \<Rightarrow> Inr prediction))"













section \<open>Dataset ingestion\<close>

definition required_columns :: "string list" where
  "required_columns =
     [''product_id'', ''product_name'', ''category'', ''base_price'', ''inventory_level'',
      ''competitor_avg_price'', ''sales_last_30_days'', ''rating'', ''review_count'',
      ''season'', ''brand_tier'', ''material_cost'', ''target_price'']"

definition numeric_columns :: "string list" where
  "numeric_columns =
     [''base_price'', ''inventory_level'', ''competitor_avg_price'',
      ''sales_last_30_days'', ''rating'', ''review_count'', ''material_cost'', ''target_price'']"

text \<open>The columns the source checks for negative values (lines 802 and 803).\<close>

definition non_negative_columns :: "string list" where
  "non_negative_columns =
     [''base_price'', ''inventory_level'', ''competitor_avg_price'',
      ''review_count'', ''material_cost'', ''target_price'']"

definition endswith :: "string \<Rightarrow> string \<Rightarrow> bool" where
  "endswith s suffix =
     (length suffix \<le> length s \<and> drop (length s - length suffix) s = suffix)"

definition is_text :: "cell \<Rightarrow> bool" where
  "is_text v = (case v of Str s \<Rightarrow> True | _ \<Rightarrow> False)"

text \<open>
  \<^verbatim>\<open>(series < c).any()\<close> and \<^verbatim>\<open>(series > c).any()\<close>. On an object column the comparison
  of a text value with a number raises \<^verbatim>\<open>TypeError\<close>; on a numeric column an empty cell
  compares false.
\<close>

definition any_less :: "cell list \<Rightarrow> real \<Rightarrow> exn + bool" where
  "any_less vals c =
     (if list_ex is_text vals then Inl (TypeError ''< not supported between str and int'')
      else Inr (list_ex (\<lambda>v. case v of Num r \<Rightarrow> r < c | _ \<Rightarrow> False) vals))"

definition any_greater :: "cell list \<Rightarrow> real \<Rightarrow> exn + bool" where
  "any_greater vals c =
     (if list_ex is_text vals then Inl (TypeError ''> not supported between str and int'')
      else Inr (list_ex (\<lambda>v. case v of Num r \<Rightarrow> r > c | _ \<Rightarrow> False) vals))"

text \<open>
  The body of the loop over \<^verbatim>\<open>numeric_columns\<close> for a column that is present. The call
  \<^verbatim>\<open>pd.to_numeric(uploaded_df[col], errors='coerce')\<close> cannot raise and its result is
  dropped, so it leaves no trace here. The result is the list \<^verbatim>\<open>validation_errors\<close>
  after the iteration, and the exception that ended it, if any.
\<close>

definition check_column ::
  "dataframe \<Rightarrow> string \<Rightarrow> validation_error list \<Rightarrow> validation_error list \<times> exn option" where
  "check_column df col errs =
     (case column df col of
        Inl e \<Rightarrow> (errs, Some e)
      | Inr vals \<Rightarrow>
          (case (if col \<in> set non_negative_columns
                 then then_do (any_less vals 0) (\<lambda>b.
                        Inr (if b then errs @ [NegativeValues col] else errs))
                 else Inr errs) of
             Inl e \<Rightarrow> (errs, Some e)
           | Inr errs1 \<Rightarrow>
               (if col = ''rating'' then
                  (case any_greater vals 5 of
                     Inl e \<Rightarrow> (errs1, Some e)
                   | Inr True \<Rightarrow> (errs1 @ [RatingOutOfRange], None)
                   | Inr False \<Rightarrow>
                       (case any_less vals 0 of
                          Inl e \<Rightarrow> (errs1, Some e)
                        | Inr b \<Rightarrow> (if b then errs1 @ [RatingOutOfRange] else errs1, None)))
                else (errs1, None))))"

fun check_numeric_columns ::
  "dataframe \<Rightarrow> string list \<Rightarrow> validation_error list \<Rightarrow> validation_error list \<times> exn option" where
  "check_numeric_columns df [] errs = (errs, None)"
| "check_numeric_columns df (col # cols) errs =
     (if col \<in> set (columns df) then
        (case check_column df col errs of
           (errs1, Some e) \<Rightarrow> (errs1, Some e)
         | (errs1, None) \<Rightarrow> check_numeric_columns df cols errs1)
      else check_numeric_columns df cols errs)"

text \<open>The loop that collects \<^verbatim>\<open>null_columns\<close>.\<close>

fun null_columns_of :: "dataframe \<Rightarrow> string list \<Rightarrow> exn + string list" where
  "null_columns_of df [] = Inr []"
| "null_columns_of df (col # cols) =
     then_do (column df col) (\<lambda>vals.
     then_do (null_columns_of df cols) (\<lambda>rest.
       Inr (if Null \<in> set vals then col # rest else rest)))"

text \<open>\<^verbatim>\<open>uploaded_df.empty\<close>.\<close>

definition dataframe_empty :: "dataframe \<Rightarrow> bool" where
  "dataframe_empty df = (rows df = [] \<or> columns df = [])"

text \<open>The list \<^verbatim>\<open>validation_errors\<close> when line 825 tests it: the emptiness check, the
  \<^verbatim>\<open>try\<close> block, and the entry its \<^verbatim>\<open>except Exception\<close> appends.\<close>

definition validation_errors_of :: "dataframe \<Rightarrow> validation_error list" where
  "validation_errors_of df =
     (let errs0 = (if dataframe_empty df then [EmptyCSV] else [])
      in case check_numeric_columns df numeric_columns errs0 of
           (errs1, Some e) \<Rightarrow> errs1 @ [DataTypeValidationError e]
         | (errs1, None) \<Rightarrow>
             (case null_columns_of df required_columns of
                Inl e \<Rightarrow> errs1 @ [DataTypeValidationError e]
              | Inr null_columns \<Rightarrow>
                  (if null_columns \<noteq> [] then errs1 @ [NullValues null_columns] else errs1)))"

text \<open>\<^verbatim>\<open>pd.concat([a, b], ignore_index=True)\<close>: the columns of \<open>a\<close>, then those only \<open>b\<close>
  has; the rows of \<open>a\<close>, then those of \<open>b\<close>, each cell under the column of its name and an
  empty cell where the frame has no such column.\<close>

definition align_row :: "string list \<Rightarrow> string list \<Rightarrow> cell list \<Rightarrow> cell list" where
  "align_row cols own r =
     map (\<lambda>c. case index_of c own of Some i \<Rightarrow> cell_at r i | None \<Rightarrow> Null) cols"

definition pd_concat :: "dataframe \<Rightarrow> dataframe \<Rightarrow> dataframe" where
  "pd_concat a b =
     (let cols = columns a @ [c \<leftarrow> columns b. c \<notin> set (columns a)]
      in \<lparr>columns = cols,
          rows = map (align_row cols (columns a)) (rows a)
                 @ map (align_row cols (columns b)) (rows b)\<rparr>)"

text \<open>\<^verbatim>\<open>drop_duplicates(subset=[c], keep='last')\<close>: a row stays when no later row has its
  value in column \<open>c\<close>.\<close>

fun keep_last :: "('a \<Rightarrow> 'k) \<Rightarrow> 'a list \<Rightarrow> 'a list" where
  "keep_last key [] = []"
| "keep_last key (r # rs) =
     (if key r \<in> set (map key rs) then keep_last key rs else r # keep_last key rs)"

definition drop_duplicates_last :: "dataframe \<Rightarrow> string \<Rightarrow> exn + dataframe" where
  "drop_duplicates_last df c =
     (case index_of c (columns df) of
        None \<Rightarrow> Inl (KeyError c)
      | Some i \<Rightarrow> Inr (df\<lparr>rows := keep_last (\<lambda>r. cell_at r i) (rows df)\<rparr>))"

record UploadStats =
  new_records :: nat
  total_records :: nat
  duplicates_removed :: nat
  existing_records :: nat

text \<open>The dict \<^verbatim>\<open>upload_data\<close> returns; \<open>retrain_metrics\<close> is its entry
  \<^verbatim>\<open>"model_metrics"\<close> and \<open>retraining_error\<close> its entry \<^verbatim>\<open>"retraining_error"\<close>, each
  present in one of the two dicts only.\<close>

record UploadResponse =
  message :: string
  upload_stats :: UploadStats
  retrain_metrics :: "ModelMetrics option"
  retraining_status :: string
  retraining_error :: "exn option"

text \<open>Lines 834 to 859: the merge. The result is \<open>(uploaded_df, combined_data,
  duplicates_removed)\<close> as they stand at line 861.\<close>

definition merge_upload ::
  "dataframe option \<Rightarrow> dataframe \<Rightarrow> exn + (dataframe \<times> dataframe \<times> nat)" where
  "merge_upload existing_data uploaded_df =
     then_do
       (case existing_data of
          Some existing \<Rightarrow>
            then_do
              (if set (columns existing) \<noteq> set (columns uploaded_df)
               then select_columns uploaded_df (columns existing)
               else Inr uploaded_df)
              (\<lambda>uploaded. Inr (uploaded, pd_concat existing uploaded))
        | None \<Rightarrow> Inr (uploaded_df, uploaded_df))
       (\<lambda>(uploaded, combined).
          if ''product_id'' \<in> set (columns combined) then
            then_do (drop_duplicates_last combined ''product_id'') (\<lambda>deduplicated.
              Inr (uploaded, deduplicated,
                   length (rows combined) - length (rows deduplicated)))
          else Inr (uploaded, combined, 0))"

text \<open>
  \<^verbatim>\<open>POST /upload-data\<close>. \<open>filename\<close> is \<^verbatim>\<open>file.filename\<close> and \<open>uploaded_df\<close> is the table
  \<^verbatim>\<open>pd.read_csv\<close> parsed from the uploaded bytes. The admin check of the route is not
  part of the function.
\<close>

definition upload_data ::
  "'m sklearn \<Rightarrow> 'm state \<Rightarrow> string \<Rightarrow> dataframe \<Rightarrow> (http_error + UploadResponse) \<times> 'm state" where
  "upload_data lib st filename uploaded_df =
     (if \<not> endswith filename ''.csv'' then (Inl (HTTPException 400 InvalidFileType), st)
      else
     (let missing_columns = [c \<leftarrow> required_columns. c \<notin> set (columns uploaded_df)]
      in if missing_columns \<noteq> [] then
           (Inl (HTTPException 400
                  (MissingColumns (sort missing_columns) required_columns
                     (sort (remdups (columns uploaded_df))))), st)
         else
     (let validation_errors = validation_errors_of uploaded_df
      in if validation_errors \<noteq> [] then
           (Inl (HTTPException 400 (ValidationFailed validation_errors)), st)
         else
     (case merge_upload (dataset_csv st) uploaded_df of
        Inl e \<Rightarrow> (Inl (HTTPException 500 (UnexpectedUploadError e)), st)
      | Inr (uploaded, combined_data, removed) \<Rightarrow>
     (let st1 = st\<lparr>dataset_csv := Some combined_data\<rparr>;
          stats = \<lparr>new_records = length (rows uploaded),
                   total_records = length (rows combined_data),
                   duplicates_removed = removed,
                   existing_records =
                     (case dataset_csv st of Some existing \<Rightarrow> length (rows existing) | None \<Rightarrow> 0)\<rparr>
      in case train_model lib st1 of
           (Inr metrics, st2) \<Rightarrow>
             (Inr \<lparr>message = ''Data uploaded and model retrained successfully'',
                   upload_stats = stats,
                   retrain_metrics = Some metrics,
                   retraining_status = ''completed'',
                   retraining_error = None\<rparr>, st2)
         | (Inl retrain_error, st2) \<Rightarrow>
             (Inr \<lparr>message = ''Data uploaded successfully, but model retraining failed'',
                   upload_stats = stats,
                   retrain_metrics = None,
                   retraining_status = ''failed'',
                   retraining_error = Some retrain_error\<rparr>, st2))))))"

section \<open>An instance of the library, for running the functions\<close>

text \<open>
  A small stand-in for scikit-learn with which the functions above can be evaluated on
  concrete inputs. The fitted model is the mean of the training targets and predicts it
  for every row. The split does not shuffle: the last \<open>\<lceil>0.2 n\<rceil>\<close> rows are the test
  set, and, like \<^verbatim>\<open>train_test_split\<close>, it raises when the train set would be empty.
  Fitting and predicting raise on a cell that is not a number, as the conversion of a
  frame to a float array does. The square root is four steps of Newton's iteration.
\<close>

definition is_number :: "cell \<Rightarrow> bool" where
  "is_number v = (case v of Num r \<Rightarrow> True | _ \<Rightarrow> False)"

definition number_of :: "cell \<Rightarrow> real" where
  "number_of v = (case v of Num r \<Rightarrow> r | _ \<Rightarrow> 0)"

definition mean :: "real list \<Rightarrow> real" where
  "mean xs = sum_list xs / of_nat (length xs)"

definition demo_train_test_split ::
  "cell list list \<Rightarrow> cell list \<Rightarrow> exn + (cell list list \<times> cell list list \<times> cell list \<times> cell list)" where
  "demo_train_test_split X y =
     (let n = length X; n_test = (n + 4) div 5; n_train = n - n_test
      in if n_train = 0 then Inl (ValueError ''the resulting train set will be empty'')
         else Inr (take n_train X, drop n_train X, take n_train y, drop n_train y))"

definition demo_fit :: "cell list list \<Rightarrow> cell list \<Rightarrow> exn + real" where
  "demo_fit X y =
     (if list_all (list_all is_number) X \<and> list_all is_number y
      then Inr (mean (map number_of y))
      else Inl (ValueError ''could not convert string to float''))"

definition demo_predict :: "real \<Rightarrow> cell list list \<Rightarrow> exn + real list" where
  "demo_predict m X =
     (if X = [] then Inl (ValueError ''Found array with 0 sample(s)'')
      else if list_all (list_all is_number) X then Inr (map (\<lambda>r. m) X)
      else Inl (ValueError ''could not convert string to float''))"

definition squared_errors :: "cell list \<Rightarrow> real list \<Rightarrow> real list" where
  "squared_errors y y_pred = map (\<lambda>(a, b). (number_of a - b) ^ 2) (zip y y_pred)"

definition demo_mean_squared_error :: "cell list \<Rightarrow> real list \<Rightarrow> exn + pyfloat" where
  "demo_mean_squared_error y y_pred =
     (if y = [] \<or> \<not> list_all is_number y then Inl (ValueError ''Input contains NaN'')
      else Inr (Fin (mean (squared_errors y y_pred))))"

definition demo_r2_score :: "cell list \<Rightarrow> real list \<Rightarrow> exn + pyfloat" where
  "demo_r2_score y y_pred =
     (if y = [] \<or> \<not> list_all is_number y then Inl (ValueError ''Input contains NaN'')
      else if length y < 2 then Inr NaN
      else (let ss_res = sum_list (squared_errors y y_pred);
                ss_tot = sum_list (squared_errors y (map (\<lambda>v. mean (map number_of y)) y))
            in Inr (if ss_tot = 0 then (if ss_res = 0 then Fin 1 else Fin 0)
                    else Fin (1 - ss_res / ss_tot))))"

fun newton_sqrt :: "nat \<Rightarrow> real \<Rightarrow> real \<Rightarrow> real" where
  "newton_sqrt 0 r x = x"
| "newton_sqrt (Suc k) r x = newton_sqrt k r ((x + r / x) / 2)"

definition demo_sqrt :: "pyfloat \<Rightarrow> pyfloat" where
  "demo_sqrt x =
     (case x of
        Fin r \<Rightarrow> (if r < 0 then NaN else if r = 0 then Fin 0 else Fin (newton_sqrt 4 r 1))
      | PosInf \<Rightarrow> PosInf
      | _ \<Rightarrow> NaN)"

definition demo_sklearn :: "real sklearn" where
  "demo_sklearn =
     \<lparr>sk_train_test_split = demo_train_test_split,
      sk_fit = demo_fit,
      sk_predict = demo_predict,
      sk_feature_importances = (\<lambda>m. replicate 10 (1 / 10)),
      sk_mean_squared_error = demo_mean_squared_error,
      sk_r2_score = demo_r2_score,
      np_sqrt = demo_sqrt\<rparr>"

text \<open>Example tables over the thirteen columns of the dataset, and example states.\<close>

definition product_row ::
  "real \<Rightarrow> string \<Rightarrow> string \<Rightarrow> real \<Rightarrow> cell \<Rightarrow> real \<Rightarrow> cell list" where
  "product_row pid name cat price sales rating_v =
     [Num pid, Str name, Str cat, Num price, Num 10, Num price, sales, Num rating_v, Num 7,
      Str ''Summer'', Str ''Premium'', Num (price / 2), Num price]"

definition demo_dataset :: dataframe where
  "demo_dataset =
     \<lparr>columns = required_columns,
      rows = [product_row 1 ''Lamp'' ''Home'' 40 (Num 3) 4,
              product_row 2 ''Phone'' ''Electronics'' 40 (Num 9) 3,
              product_row 3 ''Chair'' ''Home'' 40 (Num 4) 4.5]\<rparr>"

definition demo_encoders :: "(string \<times> LabelEncoder) list" where
  "demo_encoders =
     [(''category'', [Str ''Electronics'', Str ''Home'']),
      (''season'', [Str ''Summer'']),
      (''brand_tier'', [Str ''Premium''])]"

definition demo_metrics :: ModelMetrics where
  "demo_metrics =
     \<lparr>mse = Fin 0, rmse = Fin 0, r2_score = Fin 1,
      model_type = ''Random Forest Regressor'', training_samples = 2,
      feature_importance = []\<rparr>"

text \<open>A process that serves a model trained on \<open>demo_dataset\<close>.\<close>

definition demo_state :: "real state" where
  "demo_state =
     \<lparr>model = Some (Fitted 40),
      label_encoders = demo_encoders,
      feature_columns =
        [''base_price'', ''inventory_level'', ''competitor_avg_price'',
         ''sales_last_30_days'', ''rating'', ''review_count'', ''material_cost'',
         ''category_encoded'', ''season_encoded'', ''brand_tier_encoded''],
      model_metrics = Some demo_metrics,
      dataset_csv = Some demo_dataset,
      pricing_model_pkl = Some (Fitted 40),
      label_encoders_pkl = Some demo_encoders\<rparr>"

definition demo_product :: ProductInput where
  "demo_product =
     \<lparr>product_name = ''Lamp'', category = ''Home'', base_price = 40, inventory_level = 10,
      competitor_avg_price = 40, sales_last_30_days = 3, rating = 4, review_count = 7,
      season = ''Summer'', brand_tier = ''Premium'', material_cost = 20\<rparr>"

text \<open>Processes that serve the model of \<open>demo_state\<close> while \<^verbatim>\<open>dataset.csv\<close> holds a
  single row, and while its first row has text in \<^verbatim>\<open>sales_last_30_days\<close>.\<close>

definition one_row_state :: "real state" where
  "one_row_state =
     demo_state\<lparr>dataset_csv :=
       Some \<lparr>columns = required_columns,
             rows = [product_row 6 ''Clock'' ''Garden'' 40 (Num 3) 4]\<rparr>\<rparr>"

definition poisoned_state :: "real state" where
  "poisoned_state =
     demo_state\<lparr>dataset_csv :=
       Some \<lparr>columns = required_columns,
             rows = [product_row 1 ''Lamp'' ''Home'' 40 (Str ''abc'') 4,
                     product_row 2 ''Phone'' ''Electronics'' 40 (Num 9) 3,
                     product_row 3 ''Chair'' ''Home'' 40 (Num 4) 4.5]\<rparr>\<rparr>"

text \<open>A process started over the two pickles with no \<^verbatim>\<open>dataset.csv\<close> (it is what
  \<^verbatim>\<open>load_model\<close> leaves then), and a valid upload of one row with a new category.\<close>

definition pickles_only_state :: "real state" where
  "pickles_only_state =
     \<lparr>model = Some (Fitted 40),
      label_encoders = demo_encoders,
      feature_columns = [],
      model_metrics = None,
      dataset_csv = None,
      pricing_model_pkl = Some (Fitted 40),
      label_encoders_pkl = Some demo_encoders\<rparr>"

definition garden_batch :: dataframe where
  "garden_batch =
     \<lparr>columns = required_columns,
      rows = [product_row 6 ''Clock'' ''Garden'' 40 (Num 3) 4]\<rparr>"






text \<open>Example uploads: a table without the column \<^verbatim>\<open>rating\<close>, and a table with all
  columns whose only row has text in \<^verbatim>\<open>sales_last_30_days\<close>.\<close>

definition no_rating_batch :: dataframe where
  "no_rating_batch =
     \<lparr>columns = [c \<leftarrow> required_columns. c \<noteq> ''rating''],
      rows = [[Num 6, Str ''Clock'', Str ''Home'', Num 40, Num 10, Num 40, Num 3, Num 7,
               Str ''Summer'', Str ''Premium'', Num 20, Num 40]]\<rparr>"

definition unparsable_sales_batch :: dataframe where
  "unparsable_sales_batch =
     \<lparr>columns = required_columns,
      rows = [product_row 6 ''Clock'' ''Garden'' 40 (Str ''abc'') 4]\<rparr>"



section \<open>Unfolding rules for evaluation\<close>

lemmas table_defs =
  column_def cell_at_def row_get_def select_columns_def set_column_def then_do_def
  align_row_def pd_concat_def drop_duplicates_last_def

lemmas validation_defs =
  validation_errors_of_def required_columns_def numeric_columns_def non_negative_columns_def
  dataframe_empty_def check_column_def any_less_def any_greater_def is_text_def

lemmas training_defs =
  train_model_def load_and_preprocess_data_def categorical_columns_def fit_transform_def
  LabelEncoder_fit_def evaluate_model_def estimator_predict_def

lemmas demo_defs =
  demo_sklearn_def demo_train_test_split_def demo_fit_def demo_predict_def
  demo_mean_squared_error_def demo_r2_score_def demo_sqrt_def squared_errors_def mean_def
  is_number_def number_of_def demo_state_def demo_dataset_def demo_encoders_def
  demo_metrics_def product_row_def

section \<open>Properties of the prediction endpoint\<close>

lemma then_do_Inr_iff:
  "then_do r f = Inr y \<longleftrightarrow> (\<exists>v. r = Inr v \<and> f v = Inr y)"
  by (cases r) (simp_all add: then_do_def)

lemma then_do_Inl_iff:
  "then_do r f = Inl e \<longleftrightarrow> r = Inl e \<or> (\<exists>v. r = Inr v \<and> f v = Inl e)"
  by (cases r) (simp_all add: then_do_def)

lemma predict_price_body_Inr:
  assumes "predict_price_body lib st est product = Inr response"
  shows "\<exists>c s b predicted.
           encode (label_encoders st) ''category'' (Str (category product)) = Inr c \<and>
           encode (label_encoders st) ''season'' (Str (season product)) = Inr s \<and>
           encode (label_encoders st) ''brand_tier'' (Str (brand_tier product)) = Inr b \<and>
           predict_one lib est (feature_vector_of product c s b) = Inr predicted \<and>
           response =
             \<lparr>predicted_price = py_round (Fin predicted) 2,
              confidence_score = py_round (confidence_of (model_metrics st)) 3,
              price_change_percentage = py_round (price_change_of predicted (base_price product)) 2,
              recommendation = recommendation_of (price_change_of predicted (base_price product))\<rparr>"
  using assms unfolding predict_price_body_def then_do_Inr_iff Let_def
  by blast

lemma predict_price_Inr:
  assumes "predict_price lib st product = Inr response"
  shows "\<exists>est. model st = Some est \<and> predict_price_body lib st est product = Inr response"
  using assms unfolding predict_price_def
  by (auto split: option.splits sum.splits)

lemma round_half_even_between:
  assumes "of_int a \<le> x" and "x \<le> of_int b"
  shows "a \<le> round_half_even x \<and> round_half_even x \<le> b"
proof -
  have lo: "a \<le> \<lfloor>x\<rfloor>" using assms(1) by (simp add: le_floor_iff)
  show ?thesis
  proof (cases "x = of_int b")
    case True
    then show ?thesis using assms lo by (simp add: round_half_even_def)
  next
    case False
    then have "x < of_int b" using assms(2) by simp
    then have "\<lfloor>x\<rfloor> < b" by (simp add: floor_less_iff)
    then show ?thesis using lo by (auto simp: round_half_even_def Let_def)
  qed
qed

lemma confidence_of_band:
  "\<exists>c. confidence_of mm = Fin c \<and> 6 / 10 \<le> c \<and> c \<le> 95 / 100"
proof -
  define clamp where
    "clamp r = (case r of Fin x \<Rightarrow> min (95 / 100) (max (6 / 10) x) | PosInf \<Rightarrow> 95 / 100 | _ \<Rightarrow> 6 / 10)"
    for r :: pyfloat
  have eq: "py_min (Fin 0.95) (py_max (Fin 0.6) r) = Fin (clamp r)" for r
    by (cases r) (auto simp: py_min_def py_max_def float_lt_def clamp_def)
  have band: "6 / 10 \<le> clamp r \<and> clamp r \<le> 95 / 100" for r
    by (cases r) (auto simp: clamp_def)
  show ?thesis unfolding confidence_of_def eq using band by blast
qed

lemma py_round_band:
  assumes "6 / 10 \<le> c" and "c \<le> 95 / 100"
  shows "\<exists>c'. py_round (Fin c) 3 = Fin c' \<and> 6 / 10 \<le> c' \<and> c' \<le> 95 / 100"
proof -
  define k where "k = round_half_even (c * 1000)"
  have "of_int 600 \<le> c * 1000" and "c * 1000 \<le> of_int 950" using assms by simp_all
  then have "600 \<le> k \<and> k \<le> 950"
    unfolding k_def by (rule round_half_even_between)
  then have "600 \<le> (of_int k :: real)" and "(of_int k :: real) \<le> 950"
    by linarith+
  then have "6 / 10 \<le> (of_int k :: real) / 1000" and "(of_int k :: real) / 1000 \<le> 95 / 100"
    by simp_all
  moreover have "py_round (Fin c) 3 = Fin (of_int k / 1000)"
    by (simp add: py_round_def k_def)
  ultimately show ?thesis by blast
qed

lemma rounded_confidence_band:
  "\<exists>c. py_round (confidence_of mm) 3 = Fin c \<and> 6 / 10 \<le> c \<and> c \<le> 95 / 100"
  using confidence_of_band [of mm] py_round_band by metis

text \<open>
  Claim C5. Every successful prediction, by \<^verbatim>\<open>predict_price\<close> and by
  \<^verbatim>\<open>predict_product_price_internal\<close>, reports a confidence that is a finite number in
  the closed interval from 0.6 to 0.95, whatever the metrics hold as \<^verbatim>\<open>r2_score\<close> (also
  NaN, an infinity, or no metrics at all).
\<close>

theorem predict_confidence_in_band:
  "(predict_price lib st product = Inr response \<longrightarrow>
      (\<exists>c. confidence_score response = Fin c \<and> 6 / 10 \<le> c \<and> c \<le> 95 / 100)) \<and>
   (predict_product_price_internal lib st cols r = Inr (price, confidence) \<longrightarrow>
      (\<exists>c. confidence = Fin c \<and> 6 / 10 \<le> c \<and> c \<le> 95 / 100))"
proof (intro conjI impI)
  assume "predict_price lib st product = Inr response"
  then obtain est where "predict_price_body lib st est product = Inr response"
    using predict_price_Inr by blast
  then have "confidence_score response = py_round (confidence_of (model_metrics st)) 3"
    using predict_price_body_Inr [of lib st est product response] by auto
  then show "\<exists>c. confidence_score response = Fin c \<and> 6 / 10 \<le> c \<and> c \<le> 95 / 100"
    using rounded_confidence_band by simp
next
  assume "predict_product_price_internal lib st cols r = Inr (price, confidence)"
  then obtain est where "predict_product_price_body lib st est cols r = Inr (price, confidence)"
    unfolding predict_product_price_internal_def by (auto split: option.splits sum.splits)
  then have "confidence = py_round (confidence_of (model_metrics st)) 3"
    unfolding predict_product_price_body_def then_do_Inr_iff by auto
  then show "\<exists>c. confidence = Fin c \<and> 6 / 10 \<le> c \<and> c \<le> 95 / 100"
    using rounded_confidence_band by simp
qed

lemma demo_predict_price:
  "predict_price demo_sklearn demo_state demo_product =
     Inr \<lparr>predicted_price = Fin 40, confidence_score = Fin (95 / 100),
          price_change_percentage = Fin 0,
          recommendation = ''Current pricing is optimal''\<rparr>"
  by (simp add: predict_price_def predict_price_body_def demo_state_def demo_product_def
      demo_encoders_def encode_def LabelEncoder_transform_def then_do_def predict_one_def
      estimator_predict_def demo_sklearn_def demo_predict_def feature_vector_of_def is_number_def
      price_change_of_def np_true_divide_def float_times_def recommendation_of_def float_lt_def
      confidence_of_def demo_metrics_def py_min_def py_max_def py_round_def round_half_even_def)

theorem predict_confidence_in_band_witness:
  "predict_price demo_sklearn demo_state demo_product =
     Inr \<lparr>predicted_price = Fin 40, confidence_score = Fin (95 / 100),
          price_change_percentage = Fin 0,
          recommendation = ''Current pricing is optimal''\<rparr> \<and>
   (\<exists>c. confidence_score
          \<lparr>predicted_price = Fin 40, confidence_score = Fin (95 / 100),
           price_change_percentage = Fin 0,
           recommendation = ''Current pricing is optimal''\<rparr> = Fin c \<and>
        6 / 10 \<le> c \<and> c \<le> 95 / 100)"
  using predict_confidence_in_band [of demo_sklearn demo_state demo_product
      "\<lparr>predicted_price = Fin 40, confidence_score = Fin (95 / 100),
        price_change_percentage = Fin 0,
        recommendation = ''Current pricing is optimal''\<rparr>"]
    demo_predict_price
  by blast

lemma index_of_None_iff: "index_of v xs = None \<longleftrightarrow> v \<notin> set xs"
  by (induction xs) (auto split: option.splits)


lemma index_of_Some_mem: "index_of v xs = Some i \<Longrightarrow> v \<in> set xs"
  using index_of_None_iff [of v xs] by auto

lemma encode_Inr_iff:
  "(\<exists>i. encode les c (Str v) = Inr i) \<longleftrightarrow> in_vocabulary les c v"
  by (auto simp: encode_def in_vocabulary_def LabelEncoder_transform_def index_of_None_iff
      dest: index_of_Some_mem split: option.splits)


lemma encode_total:
  "in_vocabulary les c v \<or> (\<exists>e. encode les c (Str v) = Inl e)"
  using encode_Inr_iff [of les c v] by (cases "encode les c (Str v)") auto












section \<open>What an accepted upload guarantees\<close>

lemma check_column_grows:
  "check_column df col errs = (errs', ex) \<Longrightarrow> \<exists>more. errs' = errs @ more"
  unfolding check_column_def then_do_def
  by (auto split: sum.splits if_splits bool.splits)

lemma check_numeric_columns_grows:
  "check_numeric_columns df cols errs = (errs', ex) \<Longrightarrow> \<exists>more. errs' = errs @ more"
proof (induction cols arbitrary: errs)
  case Nil
  then show ?case by simp
next
  case (Cons col cols)
  show ?case
  proof (cases "col \<in> set (columns df)")
    case False
    with Cons show ?thesis by simp
  next
    case True
    obtain errs1 ex1 where c: "check_column df col errs = (errs1, ex1)"
      by (cases "check_column df col errs")
    from check_column_grows [OF c] obtain m1 where m1: "errs1 = errs @ m1" ..
    show ?thesis
    proof (cases ex1)
      case (Some e)
      with Cons.prems True c m1 show ?thesis by auto
    next
      case None
      with Cons.prems True c have "check_numeric_columns df cols errs1 = (errs', ex)" by simp
      from Cons.IH [OF this] m1 show ?thesis by auto
    qed
  qed
qed

lemma check_numeric_columns_clean:
  "check_numeric_columns df cols errs = ([], None) \<Longrightarrow>
     errs = [] \<and> (\<forall>col \<in> set cols. col \<in> set (columns df) \<longrightarrow> check_column df col [] = ([], None))"
proof (induction cols arbitrary: errs)
  case Nil
  then show ?case by simp
next
  case (Cons col cols)
  show ?case
  proof (cases "col \<in> set (columns df)")
    case False
    with Cons show ?thesis by simp
  next
    case True
    obtain errs1 ex1 where c: "check_column df col errs = (errs1, ex1)"
      by (cases "check_column df col errs")
    from Cons.prems True c have ex1: "ex1 = None"
      by (cases ex1) auto
    with Cons.prems True c have rest: "check_numeric_columns df cols errs1 = ([], None)" by simp
    from Cons.IH [OF rest] have e1: "errs1 = []"
      and all: "\<forall>col \<in> set cols. col \<in> set (columns df) \<longrightarrow> check_column df col [] = ([], None)"
      by simp_all
    from check_column_grows [OF c] e1 have "errs = []" by simp
    with c e1 ex1 all show ?thesis by simp
  qed
qed

lemma null_columns_of_None:
  "null_columns_of df cols = Inr [] \<Longrightarrow>
     \<forall>c \<in> set cols. \<exists>vals. column df c = Inr vals \<and> Null \<notin> set vals"
proof (induction cols)
  case Nil
  then show ?case by simp
next
  case (Cons col cols)
  from Cons.prems obtain vals rest where
    v: "column df col = Inr vals" and r: "null_columns_of df cols = Inr rest"
    and e: "(if Null \<in> set vals then col # rest else rest) = []"
    by (auto simp: then_do_Inr_iff)
  from e have "Null \<notin> set vals" "rest = []" by (auto split: if_splits)
  with v r Cons.IH show ?case by simp
qed

lemma validation_errors_of_Nil:
  assumes "validation_errors_of df = []"
  shows "\<not> dataframe_empty df \<and> check_numeric_columns df numeric_columns [] = ([], None) \<and>
         null_columns_of df required_columns = Inr []"
proof -
  let ?e0 = "if dataframe_empty df then [EmptyCSV] else []"
  obtain errs1 ex where c: "check_numeric_columns df numeric_columns ?e0 = (errs1, ex)"
    by (cases "check_numeric_columns df numeric_columns ?e0")
  from assms c have ex: "ex = None" and e1: "errs1 = []"
    and n: "null_columns_of df required_columns = Inr []"
    unfolding validation_errors_of_def Let_def
    by (auto split: option.splits sum.splits if_splits)
  from check_numeric_columns_grows [OF c] e1 have "?e0 = []" by simp
  then have ne: "\<not> dataframe_empty df" by (auto split: if_splits)
  with c ex e1 n show ?thesis by simp
qed

lemma any_less_False:
  "any_less vals c = Inr False \<Longrightarrow> \<forall>v \<in> set vals. \<not> is_text v \<and> (\<forall>r. v = Num r \<longrightarrow> \<not> r < c)"
  unfolding any_less_def by (auto simp: list_ex_iff split: if_splits)

lemma any_greater_False:
  "any_greater vals c = Inr False \<Longrightarrow> \<forall>v \<in> set vals. \<not> is_text v \<and> (\<forall>r. v = Num r \<longrightarrow> \<not> r > c)"
  unfolding any_greater_def by (auto simp: list_ex_iff split: if_splits)

lemma check_column_non_negative:
  assumes "check_column df col [] = ([], None)" and "col \<in> set non_negative_columns"
    and "column df col = Inr vals"
  shows "any_less vals 0 = Inr False"
  using assms unfolding check_column_def then_do_def
  by (auto split: sum.splits if_splits bool.splits)

lemma check_column_rating:
  assumes "check_column df ''rating'' [] = ([], None)" and "column df ''rating'' = Inr vals"
  shows "any_greater vals 5 = Inr False \<and> any_less vals 0 = Inr False"
  using assms unfolding check_column_def then_do_def
  by (auto simp: non_negative_columns_def split: sum.splits if_splits bool.splits)

lemma number_cell:
  "\<not> is_text v \<Longrightarrow> v \<noteq> Null \<Longrightarrow> \<exists>r. v = Num r"
  by (cases v) (auto simp: is_text_def)

text \<open>
  A table that passes the validation of \<^verbatim>\<open>upload_data\<close> has at least one row, no empty
  cell in a required column, numbers that are not negative in the six columns of
  \<open>non_negative_columns\<close>, and ratings that are numbers from 0 to 5. About
  \<^verbatim>\<open>sales_last_30_days\<close> it guarantees only that no cell is empty.
\<close>

lemma accepted_upload_is_clean:
  assumes val: "validation_errors_of df = []"
    and req: "set required_columns \<subseteq> set (columns df)"
  shows "rows df \<noteq> [] \<and>
         (\<forall>c \<in> set required_columns. \<exists>vals. column df c = Inr vals \<and> Null \<notin> set vals) \<and>
         (\<forall>c \<in> set non_negative_columns.
            \<exists>vals. column df c = Inr vals \<and> (\<forall>v \<in> set vals. \<exists>r. v = Num r \<and> 0 \<le> r)) \<and>
         (\<exists>vals. column df ''rating'' = Inr vals \<and>
            (\<forall>v \<in> set vals. \<exists>r. v = Num r \<and> 0 \<le> r \<and> r \<le> 5))"
proof -
  from validation_errors_of_Nil [OF val] have
    ne: "\<not> dataframe_empty df"
    and num: "check_numeric_columns df numeric_columns [] = ([], None)"
    and nul: "null_columns_of df required_columns = Inr []" by simp_all
  note nulls = null_columns_of_None [OF nul]
  from check_numeric_columns_clean [OF num] have
    chk: "\<forall>col \<in> set numeric_columns. col \<in> set (columns df) \<longrightarrow> check_column df col [] = ([], None)"
    by simp
  have sub: "set non_negative_columns \<subseteq> set numeric_columns"
    "set non_negative_columns \<subseteq> set required_columns"
    "''rating'' \<in> set numeric_columns" "''rating'' \<in> set required_columns"
    by (auto simp: non_negative_columns_def numeric_columns_def required_columns_def)
  have nn: "\<exists>vals. column df c = Inr vals \<and> (\<forall>v \<in> set vals. \<exists>r. v = Num r \<and> 0 \<le> r)"
    if c: "c \<in> set non_negative_columns" for c
  proof -
    from c sub nulls obtain vals where v: "column df c = Inr vals" "Null \<notin> set vals" by blast
    from c sub req chk have "check_column df c [] = ([], None)" by blast
    from any_less_False [OF check_column_non_negative [OF this c v(1)]]
    have "\<forall>v \<in> set vals. \<not> is_text v \<and> (\<forall>r. v = Num r \<longrightarrow> \<not> r < 0)" .
    then have "\<forall>v \<in> set vals. \<exists>r. v = Num r \<and> 0 \<le> r"
      using v(2) number_cell by (metis not_le)
    with v show ?thesis by blast
  qed
  have rt: "\<exists>vals. column df ''rating'' = Inr vals \<and>
            (\<forall>v \<in> set vals. \<exists>r. v = Num r \<and> 0 \<le> r \<and> r \<le> 5)"
  proof -
    from sub nulls obtain vals where v: "column df ''rating'' = Inr vals" "Null \<notin> set vals"
      by blast
    from sub req chk have "check_column df ''rating'' [] = ([], None)" by blast
    from check_column_rating [OF this v(1)]
    have "any_greater vals 5 = Inr False" "any_less vals 0 = Inr False" by simp_all
    from any_greater_False [OF this(1)] any_less_False [OF this(2)]
    have "\<forall>v \<in> set vals. \<not> is_text v \<and> (\<forall>r. v = Num r \<longrightarrow> \<not> r > 5 \<and> \<not> r < 0)" by blast
    then have "\<forall>v \<in> set vals. \<exists>r. v = Num r \<and> 0 \<le> r \<and> r \<le> 5"
      using v(2) number_cell by (metis not_le)
    with v show ?thesis by blast
  qed
  from ne have "rows df \<noteq> []" by (simp add: dataframe_empty_def)
  with nulls nn rt show ?thesis by blast
qed

section \<open>Properties of the ingestion checks\<close>

lemma distinct_required_columns: "distinct required_columns"
  by (simp add: required_columns_def)

text \<open>
  Claim C6. An upload named \<^verbatim>\<open>*.csv\<close> whose table lacks one or more required columns is
  rejected with HTTP 400 and the detail "Missing required columns"; the list
  \<^verbatim>\<open>missing_columns\<close> of that detail is sorted, has no repetition, and holds exactly the
  required columns the table does not have. The state, and so the dataset on disk, is
  returned as it was.
\<close>

theorem upload_missing_columns_rejected:
  assumes "endswith filename ''.csv''"
    and "\<not> set required_columns \<subseteq> set (columns uploaded_df)"
  shows "\<exists>missing.
           upload_data lib st filename uploaded_df
             = (Inl (HTTPException 400
                      (MissingColumns missing required_columns
                         (sort (remdups (columns uploaded_df))))), st) \<and>
           set missing = set required_columns - set (columns uploaded_df) \<and>
           sorted missing \<and> distinct missing"
proof -
  let ?m = "[c \<leftarrow> required_columns. c \<notin> set (columns uploaded_df)]"
  have ne: "?m \<noteq> []"
    using assms(2) by (auto simp: filter_empty_conv)
  have "upload_data lib st filename uploaded_df
          = (Inl (HTTPException 400
                   (MissingColumns (sort ?m) required_columns
                      (sort (remdups (columns uploaded_df))))), st)"
    using assms(1) ne by (simp add: upload_data_def Let_def)
  moreover have "set (sort ?m) = set required_columns - set (columns uploaded_df)"
    by auto
  moreover have "sorted (sort ?m)" by simp
  moreover have "distinct (sort ?m)"
    using distinct_required_columns by simp
  ultimately show ?thesis by blast
qed

lemma no_rating_upload:
  "upload_data demo_sklearn demo_state ''batch.csv'' no_rating_batch
     = (Inl (HTTPException 400
              (MissingColumns [''rating''] required_columns
                 (sort (remdups (columns no_rating_batch))))), demo_state)"
  by (simp add: upload_data_def endswith_def no_rating_batch_def required_columns_def)

theorem upload_missing_columns_rejected_witness:
  "endswith ''batch.csv'' ''.csv'' \<and>
   \<not> set required_columns \<subseteq> set (columns no_rating_batch) \<and>
   (\<exists>missing.
      upload_data demo_sklearn demo_state ''batch.csv'' no_rating_batch
        = (Inl (HTTPException 400
                 (MissingColumns missing required_columns
                    (sort (remdups (columns no_rating_batch))))), demo_state) \<and>
      set missing = set required_columns - set (columns no_rating_batch) \<and>
      sorted missing \<and> distinct missing) \<and>
   upload_data demo_sklearn demo_state ''batch.csv'' no_rating_batch
     = (Inl (HTTPException 400
              (MissingColumns [''rating''] required_columns
                 (sort (remdups (columns no_rating_batch))))), demo_state)"
proof -
  have a: "endswith ''batch.csv'' ''.csv''" by (simp add: endswith_def)
  have b: "\<not> set required_columns \<subseteq> set (columns no_rating_batch)"
    by (simp add: no_rating_batch_def required_columns_def)
  from upload_missing_columns_rejected [OF a b, of demo_sklearn demo_state]
  show ?thesis using a b no_rating_upload by blast
qed

lemma unparsable_validation: "validation_errors_of unparsable_sales_batch = []"
  by (simp add: validation_defs table_defs unparsable_sales_batch_def product_row_def)

lemma unparsable_merge:
  "merge_upload (Some demo_dataset) unparsable_sales_batch
     = Inr (unparsable_sales_batch,
            demo_dataset\<lparr>rows := rows demo_dataset @ rows unparsable_sales_batch\<rparr>, 0)"
  by (simp add: merge_upload_def table_defs unparsable_sales_batch_def demo_dataset_def
      required_columns_def product_row_def)

lemma unparsable_train:
  "train_model demo_sklearn
     (demo_state\<lparr>dataset_csv :=
        Some (demo_dataset\<lparr>rows := rows demo_dataset @ rows unparsable_sales_batch\<rparr>)\<rparr>)
   = (Inl (ValueError ''could not convert string to float''),
      demo_state\<lparr>dataset_csv :=
        Some (demo_dataset\<lparr>rows := rows demo_dataset @ rows unparsable_sales_batch\<rparr>),
        label_encoders :=
          [(''category'', [Str ''Electronics'', Str ''Garden'', Str ''Home'']),
           (''season'', [Str ''Summer'']),
           (''brand_tier'', [Str ''Premium''])]\<rparr>)"
  by (simp add: training_defs table_defs demo_defs unparsable_sales_batch_def required_columns_def)

text \<open>
  Claim C7 says that a table with all required columns is rejected when a numeric column
  holds a value that does not parse as a number. The source does not do so for the column
  \<^verbatim>\<open>sales_last_30_days\<close>: the result of \<^verbatim>\<open>pd.to_numeric(..., errors='coerce')\<close> is
  dropped, and that column is compared with nothing. The upload below, whose only row
  has the text \<^verbatim>\<open>abc\<close> there, passes validation with no error, is merged into the dataset,
  and is answered with the upload statistics.
\<close>

theorem upload_accepts_unparsable_sales:
  "validation_errors_of unparsable_sales_batch = [] \<and>
   upload_data demo_sklearn demo_state ''batch.csv'' unparsable_sales_batch
     = (Inr \<lparr>message = ''Data uploaded successfully, but model retraining failed'',
             upload_stats = \<lparr>new_records = 1, total_records = 4, duplicates_removed = 0,
                              existing_records = 3\<rparr>,
             retrain_metrics = None,
             retraining_status = ''failed'',
             retraining_error = Some (ValueError ''could not convert string to float'')\<rparr>,
        demo_state\<lparr>dataset_csv :=
          Some (demo_dataset\<lparr>rows := rows demo_dataset @ rows unparsable_sales_batch\<rparr>),
          label_encoders :=
            [(''category'', [Str ''Electronics'', Str ''Garden'', Str ''Home'']),
             (''season'', [Str ''Summer'']),
             (''brand_tier'', [Str ''Premium''])]\<rparr>)"
proof -
  have cols: "[c \<leftarrow> required_columns. c \<notin> set (columns unparsable_sales_batch)] = []"
    by (simp add: unparsable_sales_batch_def)
  have csv: "endswith ''batch.csv'' ''.csv''" by (simp add: endswith_def)
  have ds: "dataset_csv demo_state = Some demo_dataset" by (simp add: demo_state_def)
  have n: "length (rows demo_dataset) = 3" "length (rows unparsable_sales_batch) = 1"
    by (simp_all add: demo_dataset_def unparsable_sales_batch_def)
  show ?thesis
    unfolding upload_data_def Let_def
    by (simp add: cols csv ds n unparsable_validation unparsable_merge unparsable_train)
qed

section \<open>Properties of training and loading\<close>

lemma load_and_preprocess_data_cases:
  "load_and_preprocess_data st = (r, st') \<Longrightarrow>
     (dataset_csv st = None \<and> st' = st \<and> r = Inl (FileNotFoundError ''dataset.csv'')) \<or>
     (\<exists>df e. dataset_csv st = Some df \<and> r = Inl e \<and>
        st' = st\<lparr>label_encoders := snd (encode_columns categorical_columns df [])\<rparr>) \<or>
     (\<exists>df df'. dataset_csv st = Some df \<and> r = Inr df' \<and>
        fst (encode_columns categorical_columns df []) = Inr df' \<and>
        st' = st\<lparr>label_encoders := snd (encode_columns categorical_columns df []),
                 feature_columns := standard_feature_columns\<rparr>)"
  unfolding load_and_preprocess_data_def standard_feature_columns_def
  by (auto split: option.splits prod.splits sum.splits)

lemma load_and_preprocess_data_frame:
  assumes "load_and_preprocess_data st = (r, st')"
  shows "model st' = model st \<and> model_metrics st' = model_metrics st \<and>
         dataset_csv st' = dataset_csv st \<and> pricing_model_pkl st' = pricing_model_pkl st \<and>
         label_encoders_pkl st' = label_encoders_pkl st"
  using load_and_preprocess_data_cases [OF assms] by auto

lemma train_model_Inl:
  assumes "train_model lib st = (Inl e, st')"
  shows "\<exists>st1 r. load_and_preprocess_data st = (r, st1) \<and>
           (st' = st1 \<or> (\<exists>est. st' = st1\<lparr>model := Some est\<rparr>))"
proof -
  obtain r st1 where l: "load_and_preprocess_data st = (r, st1)"
    by (cases "load_and_preprocess_data st")
  have "st' = st1 \<or> (\<exists>est. st' = st1\<lparr>model := Some est\<rparr>)"
    using assms unfolding train_model_def l Let_def
    by (auto split: sum.splits prod.splits)
  with l show ?thesis by blast
qed


lemma train_model_Inl_frame:
  assumes "train_model lib st = (Inl e, st')"
  shows "model_metrics st' = model_metrics st \<and> dataset_csv st' = dataset_csv st \<and>
         pricing_model_pkl st' = pricing_model_pkl st \<and>
         label_encoders_pkl st' = label_encoders_pkl st"
proof -
  from train_model_Inl [OF assms] obtain st1 r where
    l: "load_and_preprocess_data st = (r, st1)"
    and s: "st' = st1 \<or> (\<exists>est. st' = st1\<lparr>model := Some est\<rparr>)" by blast
  from s load_and_preprocess_data_frame [OF l] show ?thesis by auto
qed

lemma train_model_Inl_encoders:
  assumes "train_model lib st = (Inl e, st')" and "dataset_csv st = Some df"
  shows "label_encoders st' = snd (encode_columns categorical_columns df [])"
proof -
  from train_model_Inl [OF assms(1)] obtain st1 r where
    l: "load_and_preprocess_data st = (r, st1)"
    and s: "st' = st1 \<or> (\<exists>est. st' = st1\<lparr>model := Some est\<rparr>)" by blast
  from load_and_preprocess_data_cases [OF l] assms(2)
  have "label_encoders st1 = snd (encode_columns categorical_columns df [])" by auto
  with s show ?thesis by auto
qed

text \<open>
  Claim C1, as amended. When \<^verbatim>\<open>train_model\<close> raises, the exception is the one raised
  inside it (\<^verbatim>\<open>POST /train\<close> reports it as HTTP 500 "Training error"); the metrics and
  the three files are the ones from before the run, and when \<^verbatim>\<open>dataset.csv\<close> does not
  exist the whole state is unchanged. When the dataset exists, the encoder registry has
  already been rebuilt from it: it holds the encoders fitted up to the point of failure,
  not the previous ones.
\<close>

theorem train_failure_effects:
  assumes "train_model lib st = (Inl e, st')"
  shows "model_metrics st' = model_metrics st \<and>
         dataset_csv st' = dataset_csv st \<and>
         pricing_model_pkl st' = pricing_model_pkl st \<and>
         label_encoders_pkl st' = label_encoders_pkl st \<and>
         retrain_model lib st = (Inl (HTTPException 500 (TrainingErrorDetail e)), st') \<and>
         (case dataset_csv st of
            None \<Rightarrow> st' = st
          | Some df \<Rightarrow> label_encoders st' = snd (encode_columns categorical_columns df []))"
proof -
  note frame = train_model_Inl_frame [OF assms]
  have http: "retrain_model lib st = (Inl (HTTPException 500 (TrainingErrorDetail e)), st')"
    by (simp add: retrain_model_def assms)
  have enc: "(case dataset_csv st of
            None \<Rightarrow> st' = st
          | Some df \<Rightarrow> label_encoders st' = snd (encode_columns categorical_columns df []))"
  proof (cases "dataset_csv st")
    case None
    then have "train_model lib st = (Inl (FileNotFoundError ''dataset.csv''), st)"
      by (simp add: train_model_def load_and_preprocess_data_def)
    with assms None show ?thesis by simp
  next
    case (Some df)
    from train_model_Inl_encoders [OF assms Some] Some show ?thesis by simp
  qed
  from frame http enc show ?thesis by simp
qed

lemma one_row_train:
  "train_model demo_sklearn one_row_state
     = (Inl (ValueError ''the resulting train set will be empty''),
        one_row_state\<lparr>label_encoders :=
          [(''category'', [Str ''Garden'']), (''season'', [Str ''Summer'']),
           (''brand_tier'', [Str ''Premium''])]\<rparr>)"
  by (simp add: one_row_state_def training_defs table_defs demo_defs required_columns_def)

lemma poisoned_train:
  "train_model demo_sklearn poisoned_state
     = (Inl (ValueError ''could not convert string to float''),
        poisoned_state\<lparr>model := Some Unfitted\<rparr>)"
  by (simp add: poisoned_state_def training_defs table_defs demo_defs required_columns_def)

text \<open>
  Claim C1 as stated fails. With a single row in \<^verbatim>\<open>dataset.csv\<close> the split raises, and
  the registry that was fitted on the categories Electronics and Home has already been
  replaced by one fitted on that row. With text in a feature column of a row that falls
  into the train set, \<^verbatim>\<open>fit\<close> raises, and the global \<^verbatim>\<open>model\<close> holds the estimator that
  was created for the run and never fitted. (Which rows fall into the train set is the
  library's choice; the replacement of the registry does not depend on it.)
\<close>

theorem train_failure_replaces_triple_counterexample:
  "train_model demo_sklearn one_row_state
     = (Inl (ValueError ''the resulting train set will be empty''),
        one_row_state\<lparr>label_encoders :=
          [(''category'', [Str ''Garden'']), (''season'', [Str ''Summer'']),
           (''brand_tier'', [Str ''Premium''])]\<rparr>) \<and>
   label_encoders one_row_state
     = [(''category'', [Str ''Electronics'', Str ''Home'']), (''season'', [Str ''Summer'']),
        (''brand_tier'', [Str ''Premium''])] \<and>
   train_model demo_sklearn poisoned_state
     = (Inl (ValueError ''could not convert string to float''),
        poisoned_state\<lparr>model := Some Unfitted\<rparr>) \<and>
   model poisoned_state = Some (Fitted 40)"
  using one_row_train poisoned_train
  by (simp add: one_row_state_def poisoned_state_def demo_state_def demo_encoders_def)

theorem train_failure_effects_witness:
  "train_model demo_sklearn one_row_state
     = (Inl (ValueError ''the resulting train set will be empty''),
        one_row_state\<lparr>label_encoders :=
          [(''category'', [Str ''Garden'']), (''season'', [Str ''Summer'']),
           (''brand_tier'', [Str ''Premium''])]\<rparr>) \<and>
   model_metrics (one_row_state\<lparr>label_encoders :=
          [(''category'', [Str ''Garden'']), (''season'', [Str ''Summer'']),
           (''brand_tier'', [Str ''Premium''])]\<rparr>) = model_metrics one_row_state \<and>
   retrain_model demo_sklearn one_row_state
     = (Inl (HTTPException 500
              (TrainingErrorDetail (ValueError ''the resulting train set will be empty''))),
        one_row_state\<lparr>label_encoders :=
          [(''category'', [Str ''Garden'']), (''season'', [Str ''Summer'']),
           (''brand_tier'', [Str ''Premium''])]\<rparr>)"
  using train_failure_effects [OF one_row_train] one_row_train by simp








lemma fresh_process_metrics [simp]:
  "fresh_process (st\<lparr>model_metrics := mm\<rparr>) = fresh_process st"
  by (simp add: fresh_process_def)


section \<open>Properties of ingestion\<close>

lemma pickles_only_reachable:
  "load_model demo_sklearn (fresh_process pickles_only_state) = (Inr True, pickles_only_state)"
  by (simp add: load_model_def fresh_process_def pickles_only_state_def)

lemma upload_data_Inr:
  assumes "upload_data lib st filename uploaded_df = (Inr response, st')"
  shows "endswith filename ''.csv'' \<and>
         [c \<leftarrow> required_columns. c \<notin> set (columns uploaded_df)] = [] \<and>
         validation_errors_of uploaded_df = [] \<and>
         (\<exists>uploaded combined removed r.
            merge_upload (dataset_csv st) uploaded_df = Inr (uploaded, combined, removed) \<and>
            train_model lib (st\<lparr>dataset_csv := Some combined\<rparr>) = (r, st') \<and>
            upload_stats response =
              \<lparr>new_records = length (rows uploaded),
               total_records = length (rows combined),
               duplicates_removed = removed,
               existing_records =
                 (case dataset_csv st of Some existing \<Rightarrow> length (rows existing) | None \<Rightarrow> 0)\<rparr> \<and>
            retrain_metrics response = (case r of Inr metrics \<Rightarrow> Some metrics | Inl e \<Rightarrow> None) \<and>
            retraining_error response = (case r of Inr metrics \<Rightarrow> None | Inl e \<Rightarrow> Some e) \<and>
            retraining_status response
              = (case r of Inr metrics \<Rightarrow> ''completed'' | Inl e \<Rightarrow> ''failed''))"
proof -
  have csv: "endswith filename ''.csv''"
    using assms unfolding upload_data_def by (auto split: if_splits)
  have cols: "[c \<leftarrow> required_columns. c \<notin> set (columns uploaded_df)] = []"
    using assms csv unfolding upload_data_def Let_def by (auto split: if_splits)
  have val: "validation_errors_of uploaded_df = []"
    using assms csv cols unfolding upload_data_def Let_def by (auto split: if_splits)
  obtain uploaded combined removed where
    m: "merge_upload (dataset_csv st) uploaded_df = Inr (uploaded, combined, removed)"
    using assms csv cols val unfolding upload_data_def Let_def
    by (cases "merge_upload (dataset_csv st) uploaded_df") auto
  obtain r st2 where t: "train_model lib (st\<lparr>dataset_csv := Some combined\<rparr>) = (r, st2)"
    by (cases "train_model lib (st\<lparr>dataset_csv := Some combined\<rparr>)")
  have "st' = st2 \<and>
        upload_stats response =
              \<lparr>new_records = length (rows uploaded),
               total_records = length (rows combined),
               duplicates_removed = removed,
               existing_records =
                 (case dataset_csv st of Some existing \<Rightarrow> length (rows existing) | None \<Rightarrow> 0)\<rparr> \<and>
            retrain_metrics response = (case r of Inr metrics \<Rightarrow> Some metrics | Inl e \<Rightarrow> None) \<and>
            retraining_error response = (case r of Inr metrics \<Rightarrow> None | Inl e \<Rightarrow> Some e) \<and>
            retraining_status response
              = (case r of Inr metrics \<Rightarrow> ''completed'' | Inl e \<Rightarrow> ''failed'')"
    using assms unfolding upload_data_def Let_def
    by (cases r) (auto simp: csv cols val m t)
  with csv cols val m t show ?thesis by blast
qed




text \<open>
  Claim C9, as amended. When the retraining that follows a successful merge fails,
  \<^verbatim>\<open>upload_data\<close> still returns normally: the response carries the upload statistics,
  no metrics, the status \<^verbatim>\<open>failed\<close> and the error. \<^verbatim>\<open>dataset.csv\<close> holds the merged
  table (nothing is rolled back), and the metrics and the two pickles are those from
  before the upload. The encoder registry in memory, however, is the one the failed run
  rebuilt from the merged table, so it is not the previously active triple that serves
  the next prediction.
\<close>

theorem upload_failed_retraining_effects:
  assumes "upload_data lib st filename uploaded_df = (Inr response, st')"
    and "retraining_status response = ''failed''"
  shows "\<exists>uploaded combined removed e.
           merge_upload (dataset_csv st) uploaded_df = Inr (uploaded, combined, removed) \<and>
           train_model lib (st\<lparr>dataset_csv := Some combined\<rparr>) = (Inl e, st') \<and>
           dataset_csv st' = Some combined \<and>
           upload_stats response =
              \<lparr>new_records = length (rows uploaded),
               total_records = length (rows combined),
               duplicates_removed = removed,
               existing_records =
                 (case dataset_csv st of Some existing \<Rightarrow> length (rows existing) | None \<Rightarrow> 0)\<rparr> \<and>
           retrain_metrics response = None \<and>
           retraining_error response = Some e \<and>
           model_metrics st' = model_metrics st \<and>
           pricing_model_pkl st' = pricing_model_pkl st \<and>
           label_encoders_pkl st' = label_encoders_pkl st \<and>
           label_encoders st' = snd (encode_columns categorical_columns combined [])"
proof -
  from upload_data_Inr [OF assms(1)] obtain uploaded combined removed r where
    m: "merge_upload (dataset_csv st) uploaded_df = Inr (uploaded, combined, removed)"
    and t: "train_model lib (st\<lparr>dataset_csv := Some combined\<rparr>) = (r, st')"
    and stats: "upload_stats response =
              \<lparr>new_records = length (rows uploaded),
               total_records = length (rows combined),
               duplicates_removed = removed,
               existing_records =
                 (case dataset_csv st of Some existing \<Rightarrow> length (rows existing) | None \<Rightarrow> 0)\<rparr>"
    and rm: "retrain_metrics response = (case r of Inr metrics \<Rightarrow> Some metrics | Inl e \<Rightarrow> None)"
    and re: "retraining_error response = (case r of Inr metrics \<Rightarrow> None | Inl e \<Rightarrow> Some e)"
    and rs: "retraining_status response
              = (case r of Inr metrics \<Rightarrow> ''completed'' | Inl e \<Rightarrow> ''failed'')"
    by blast
  from rs assms(2) obtain e where r: "r = Inl e" by (cases r) auto
  from train_model_Inl_frame [OF t [unfolded r]]
    train_model_Inl_encoders [OF t [unfolded r], of combined]
  have "model_metrics st' = model_metrics st \<and> dataset_csv st' = Some combined \<and>
        pricing_model_pkl st' = pricing_model_pkl st \<and>
        label_encoders_pkl st' = label_encoders_pkl st \<and>
        label_encoders st' = snd (encode_columns categorical_columns combined [])"
    by simp
  with m t stats rm re r show ?thesis by auto
qed

lemma garden_validation: "validation_errors_of garden_batch = []"
  by (simp add: validation_defs table_defs garden_batch_def product_row_def)

lemma garden_merge_fresh: "merge_upload None garden_batch = Inr (garden_batch, garden_batch, 0)"
  by (simp add: merge_upload_def table_defs garden_batch_def required_columns_def product_row_def)

lemma garden_train:
  "train_model demo_sklearn (pickles_only_state\<lparr>dataset_csv := Some garden_batch\<rparr>)
     = (Inl (ValueError ''the resulting train set will be empty''),
        pickles_only_state
          \<lparr>dataset_csv := Some garden_batch,
           label_encoders :=
             [(''category'', [Str ''Garden'']), (''season'', [Str ''Summer'']),
              (''brand_tier'', [Str ''Premium''])],
           feature_columns := standard_feature_columns\<rparr>)"
  by (simp add: pickles_only_state_def garden_batch_def training_defs table_defs demo_defs
      required_columns_def standard_feature_columns_def)

lemma garden_upload:
  "upload_data demo_sklearn pickles_only_state ''batch.csv'' garden_batch
     = (Inr \<lparr>message = ''Data uploaded successfully, but model retraining failed'',
             upload_stats = \<lparr>new_records = 1, total_records = 1, duplicates_removed = 0,
                              existing_records = 0\<rparr>,
             retrain_metrics = None,
             retraining_status = ''failed'',
             retraining_error = Some (ValueError ''the resulting train set will be empty'')\<rparr>,
        pickles_only_state
          \<lparr>dataset_csv := Some garden_batch,
           label_encoders :=
             [(''category'', [Str ''Garden'']), (''season'', [Str ''Summer'']),
              (''brand_tier'', [Str ''Premium''])],
           feature_columns := standard_feature_columns\<rparr>)"
proof -
  have cols: "[c \<leftarrow> required_columns. c \<notin> set (columns garden_batch)] = []"
    by (simp add: garden_batch_def)
  have csv: "endswith ''batch.csv'' ''.csv''" by (simp add: endswith_def)
  have ds: "dataset_csv pickles_only_state = None" by (simp add: pickles_only_state_def)
  have n: "length (rows garden_batch) = 1" by (simp add: garden_batch_def)
  show ?thesis
    unfolding upload_data_def Let_def
    by (simp add: cols csv ds n garden_validation garden_merge_fresh garden_train)
qed

lemma pickles_only_predict:
  "predict_price demo_sklearn pickles_only_state demo_product
     = Inr \<lparr>predicted_price = Fin 40, confidence_score = Fin (8 / 10),
            price_change_percentage = Fin 0,
            recommendation = ''Current pricing is optimal''\<rparr>"
  by (simp add: predict_price_def predict_price_body_def pickles_only_state_def demo_product_def
      demo_encoders_def encode_def LabelEncoder_transform_def then_do_def predict_one_def
      estimator_predict_def demo_sklearn_def demo_predict_def feature_vector_of_def is_number_def
      price_change_of_def np_true_divide_def float_times_def recommendation_of_def float_lt_def
      confidence_of_def py_min_def py_max_def py_round_def round_half_even_def)

lemma after_garden_predict:
  "predict_price demo_sklearn
     (pickles_only_state
        \<lparr>dataset_csv := Some garden_batch,
         label_encoders :=
           [(''category'', [Str ''Garden'']), (''season'', [Str ''Summer'']),
            (''brand_tier'', [Str ''Premium''])],
         feature_columns := standard_feature_columns\<rparr>)
     demo_product
     = Inl (HTTPException 400 (PredictionErrorDetail (UnseenLabels (Str ''Home''))))"
  by (simp add: predict_price_def predict_price_body_def pickles_only_state_def demo_product_def
      encode_def LabelEncoder_transform_def then_do_def)

text \<open>
  Claim C9 as stated fails in its last part. A process that serves the pickled model
  prices a request of category Home. A valid upload of one row of category Garden is
  merged and written; its retraining fails in the split, and the response is the
  degraded success. The registry in memory is then the one fitted on the merged table,
  and the same request fails with the error for unseen labels.
\<close>

theorem upload_failed_retraining_counterexample:
  "upload_data demo_sklearn pickles_only_state ''batch.csv'' garden_batch
     = (Inr \<lparr>message = ''Data uploaded successfully, but model retraining failed'',
             upload_stats = \<lparr>new_records = 1, total_records = 1, duplicates_removed = 0,
                              existing_records = 0\<rparr>,
             retrain_metrics = None,
             retraining_status = ''failed'',
             retraining_error = Some (ValueError ''the resulting train set will be empty'')\<rparr>,
        pickles_only_state
          \<lparr>dataset_csv := Some garden_batch,
           label_encoders :=
             [(''category'', [Str ''Garden'']), (''season'', [Str ''Summer'']),
              (''brand_tier'', [Str ''Premium''])],
           feature_columns := standard_feature_columns\<rparr>) \<and>
   predict_price demo_sklearn pickles_only_state demo_product
     = Inr \<lparr>predicted_price = Fin 40, confidence_score = Fin (8 / 10),
            price_change_percentage = Fin 0,
            recommendation = ''Current pricing is optimal''\<rparr> \<and>
   predict_price demo_sklearn
     (pickles_only_state
        \<lparr>dataset_csv := Some garden_batch,
         label_encoders :=
           [(''category'', [Str ''Garden'']), (''season'', [Str ''Summer'']),
            (''brand_tier'', [Str ''Premium''])],
         feature_columns := standard_feature_columns\<rparr>)
     demo_product
     = Inl (HTTPException 400 (PredictionErrorDetail (UnseenLabels (Str ''Home''))))"
  using garden_upload pickles_only_predict after_garden_predict by simp

theorem upload_failed_retraining_effects_witness:
  "upload_data demo_sklearn pickles_only_state ''batch.csv'' garden_batch
     = (Inr \<lparr>message = ''Data uploaded successfully, but model retraining failed'',
             upload_stats = \<lparr>new_records = 1, total_records = 1, duplicates_removed = 0,
                              existing_records = 0\<rparr>,
             retrain_metrics = None,
             retraining_status = ''failed'',
             retraining_error = Some (ValueError ''the resulting train set will be empty'')\<rparr>,
        pickles_only_state
          \<lparr>dataset_csv := Some garden_batch,
           label_encoders :=
             [(''category'', [Str ''Garden'']), (''season'', [Str ''Summer'']),
              (''brand_tier'', [Str ''Premium''])],
           feature_columns := standard_feature_columns\<rparr>) \<and>
   (\<exists>uploaded combined removed e.
      merge_upload (dataset_csv pickles_only_state) garden_batch = Inr (uploaded, combined, removed) \<and>
      dataset_csv
        (pickles_only_state
          \<lparr>dataset_csv := Some garden_batch,
           label_encoders :=
             [(''category'', [Str ''Garden'']), (''season'', [Str ''Summer'']),
              (''brand_tier'', [Str ''Premium''])],
           feature_columns := standard_feature_columns\<rparr>) = Some combined \<and>
      label_encoders
        (pickles_only_state
          \<lparr>dataset_csv := Some garden_batch,
           label_encoders :=
             [(''category'', [Str ''Garden'']), (''season'', [Str ''Summer'']),
              (''brand_tier'', [Str ''Premium''])],
           feature_columns := standard_feature_columns\<rparr>)
        = snd (encode_columns categorical_columns combined []))"
proof -
  have failed: "retraining_status
      \<lparr>message = ''Data uploaded successfully, but model retraining failed'',
       upload_stats = \<lparr>new_records = 1, total_records = 1, duplicates_removed = 0,
                        existing_records = 0\<rparr>,
       retrain_metrics = None,
       retraining_status = ''failed'',
       retraining_error = Some (ValueError ''the resulting train set will be empty'')\<rparr>
     = ''failed''" by simp
  from upload_failed_retraining_effects [OF garden_upload failed]
  show ?thesis using garden_upload by blast
qed

section \<open>Repeated uploads\<close>





























section \<open>Properties of the product listing\<close>















end
